theory Spec2Isabelle
  imports Main
begin

section \<open>The notebook script as data\<close>

text \<open>
  The repository holds one file, \<^verbatim>\<open>03-Intro-to-GIS/03a_Intro_to_GIS_Revised.py\<close>: a
  notebook exported as a straight-line Python script. It defines no function, class, loop
  or branch; every statement is an import, an assignment or a bare expression. The
  statements are recorded here one by one, each with the line of the source file it
  stands on, as a small syntax tree of Python expressions. Comments and blank lines are
  left out.
\<close>

subsection \<open>Python expressions and statements\<close>

datatype expr =
    Name string                 \<comment> \<open>a variable, module or builtin name\<close>
  | StrLit string               \<comment> \<open>a string literal\<close>
  | IntLit int                  \<comment> \<open>an integer literal\<close>
  | DecLit int nat              \<comment> \<open>a float literal \<open>m\<close> with \<open>k\<close> decimals: \<open>0.6\<close> is \<open>DecLit 6 1\<close>\<close>
  | BoolLit bool
  | NoneLit
  | Neg expr                    \<comment> \<open>unary minus\<close>
  | Attr expr string            \<comment> \<open>\<open>e.name\<close>\<close>
  | Call expr "expr list"       \<comment> \<open>\<open>f(args)\<close>; a keyword argument is a \<open>Kw\<close>\<close>
  | Kw string expr              \<comment> \<open>\<open>name=e\<close> in an argument list\<close>
  | Subscript expr expr         \<comment> \<open>\<open>e[i]\<close>\<close>
  | Slice expr expr             \<comment> \<open>\<open>a:b\<close> in a subscript\<close>
  | TupleE "expr list"
  | ListE "expr list"

datatype target =
    TName string                \<comment> \<open>\<open>x = ...\<close>\<close>
  | TTuple "string list"        \<comment> \<open>\<open>a, b = ...\<close>\<close>
  | TSubscript expr expr        \<comment> \<open>\<open>e[i] = ...\<close>\<close>

text \<open>A statement carries the line of the source file it stands on.\<close>

datatype stmt =
    Import nat string string                     \<comment> \<open>\<open>import module as name\<close>\<close>
  | FromImport nat string "(string \<times> string) list" \<comment> \<open>\<open>from module import x as y, ...\<close>\<close>
  | ExprStmt nat expr
  | Assign nat target expr

subsection \<open>The script\<close>

text \<open>
  Lines 350 and 374 both select the same seven columns of the health-site frame; the list
  is written once here.
\<close>

definition health_columns :: expr where
  "health_columns = ListE [StrLit ''name'', StrLit ''amenity'', StrLit ''addr_street'',
     StrLit ''addr_city'', StrLit ''addr_postcode'', StrLit ''healthcare'',
     StrLit ''geometry'']"

definition script :: "stmt list" where
  "script = [
    Import 14 ''geopandas'' ''gpd'',
    Import 15 ''contextily'' ''ctx'',
    FromImport 16 ''shapely.geometry''
      [(''Point'', ''Point''), (''LineString'', ''LineString''), (''Polygon'', ''Polygon'')],
    FromImport 17 ''matplotlib'' [(''pyplot'', ''plt'')],
    Import 18 ''folium'' ''folium'',
    Import 32 ''fiona'' ''fiona'',
    ExprStmt 32 (Attr (Name ''fiona'') ''supported_drivers''),
    ExprStmt 48 (Call (Attr (Call (Name ''get_ipython'') []) ''system'')
      [StrLit ''unzip phl_ica_floodrisk_geonode_mar2014.zip -d philippines_flood_risk'']),
    Assign 55 (TName ''filepath'')
      (StrLit ''philippines_flood_risk/phl_ica_floodrisk_geonode_mar2014.shp''),
    Assign 58 (TName ''data'') (Call (Attr (Name ''gpd'') ''read_file'') [Name ''filepath'']),
    ExprStmt 64 (Call (Attr (Name ''data'') ''head'') []),
    ExprStmt 70 (Attr (Name ''data'') ''columns''),
    ExprStmt 77 (Call (Name ''type'')
      [Subscript (Attr (Subscript (Name ''data'') (StrLit ''geometry'')) ''iloc'') (IntLit 0)]),
    ExprStmt 85 (Subscript (Name ''data'') (StrLit ''geometry'')),
    ExprStmt 93 (Attr (Name ''data'') ''bounds''),
    ExprStmt 100 (Attr (Name ''data'') ''boundary''),
    ExprStmt 130 (Attr (Name ''data'') ''crs''),
    ExprStmt 137 (Attr (Name ''data'') ''area''),
    Assign 143 (TName ''data_in_3857'')
      (Call (Attr (Name ''data'') ''to_crs'') [StrLit ''epsg:3857'']),
    ExprStmt 144 (Attr (Name ''data_in_3857'') ''area''),
    Assign 169 (TName ''ax'') (Call (Attr (Name ''data'') ''plot'')
      [Kw ''figsize'' (TupleE [IntLit 10, IntLit 5]), Kw ''alpha'' (DecLit 6 1),
       Kw ''cmap'' (StrLit ''Set2'')]),
    Assign 179 (TName ''ax'') (Call (Attr (Name ''data'') ''plot'')
      [Kw ''figsize'' (TupleE [IntLit 10, IntLit 10]), Kw ''alpha'' (DecLit 6 1),
       Kw ''cmap'' (StrLit ''Set2''), Kw ''column'' (StrLit ''FloodText''),
       Kw ''legend'' (BoolLit True)]),
    Assign 190 (TName ''ax'') (Call (Attr (Name ''data'') ''plot'')
      [Kw ''figsize'' (TupleE [IntLit 10, IntLit 5]), Kw ''alpha'' (DecLit 6 1),
       Kw ''cmap'' (StrLit ''Reds''), Kw ''column'' (StrLit ''FloodClass''),
       Kw ''legend'' (BoolLit True)]),
    ExprStmt 193 (Call (Attr (Name ''ax'') ''set_title'')
      [StrLit ''Flood Classes in the Philippines'', Kw ''fontsize'' (IntLit 15)]),
    ExprStmt 196 (Call (Attr (Name ''ax'') ''set_xlabel'')
      [StrLit ''Longitude'', Kw ''fontsize'' (IntLit 12)]),
    ExprStmt 197 (Call (Attr (Name ''ax'') ''set_ylabel'')
      [StrLit ''Latitude'', Kw ''fontsize'' (IntLit 12)]),
    ExprStmt 199 (Call (Attr (Name ''plt'') ''show'') []),
    ExprStmt 211 (Attr (Name ''data'') ''crs''),
    Assign 217 (TName ''ax'') (Call (Attr (Name ''data'') ''plot'')
      [Kw ''figsize'' (TupleE [IntLit 10, IntLit 8]), Kw ''column'' (StrLit ''FloodText''),
       Kw ''legend'' (BoolLit True)]),
    ExprStmt 221 (Call (Attr (Name ''ctx'') ''add_basemap'')
      [Name ''ax'', Kw ''crs'' (Attr (Name ''data'') ''crs''),
       Kw ''source'' (Attr (Attr (Attr (Name ''ctx'') ''providers'') ''Gaode'') ''Normal'')]),
    Assign 228 (TName ''ax'') (Call (Attr (Name ''data'') ''plot'')
      [Kw ''figsize'' (TupleE [IntLit 10, IntLit 5]), Kw ''cmap'' (StrLit ''Set2''),
       Kw ''column'' (StrLit ''FloodText'')]),
    ExprStmt 229 (Call (Attr (Name ''ax'') ''set_xlim'') [ListE [IntLit 115, IntLit 130]]),
    ExprStmt 230 (Call (Attr (Name ''ax'') ''set_ylim'') [ListE [Neg (IntLit 0), IntLit 25]]),
    ExprStmt 231 (Call (Attr (Name ''ctx'') ''add_basemap'')
      [Name ''ax'', Kw ''crs'' (Attr (Name ''data'') ''crs''),
       Kw ''source''
         (Attr (Attr (Attr (Name ''ctx'') ''providers'') ''OpenStreetMap'') ''Mapnik'')]),
    ExprStmt 243 (Attr (Name ''ctx'') ''providers''),
    Assign 251 (TName ''ax'') (Call (Attr (Name ''data'') ''plot'')
      [Kw ''figsize'' (TupleE [IntLit 10, IntLit 5]), Kw ''alpha'' (DecLit 6 1),
       Kw ''column'' (StrLit ''FloodText''), Kw ''legend'' (BoolLit True)]),
    ExprStmt 254 (Call (Attr (Name ''ctx'') ''add_basemap'')
      [Name ''ax'', Kw ''crs'' (Attr (Name ''data'') ''crs''),
       Kw ''source'' (Attr (Attr (Attr (Name ''ctx'') ''providers'') ''Gaode'') ''Normal'')]),
    ExprStmt 256 (Call (Attr (Name ''ctx'') ''add_basemap'')
      [Name ''ax'', Kw ''crs'' (Attr (Name ''data'') ''crs''),
       Kw ''source''
         (Attr (Attr (Attr (Name ''ctx'') ''providers'') ''CartoDB'') ''DarkMatterOnlyLabels'')]),
    Assign 264 (TTuple [''w'', ''s'', ''e'', ''n'']) (Attr (Name ''data'') ''total_bounds''),
    ExprStmt 265 (Attr (Name ''data'') ''total_bounds''),
    Assign 273 (TTuple [''img'', ''ext'']) (Call (Attr (Name ''ctx'') ''bounds2img'')
      [Name ''w'', Name ''s'', Name ''e'', Name ''n'', IntLit 6, Kw ''ll'' (BoolLit True),
       Kw ''source'' (Attr (Attr (Attr (Name ''ctx'') ''providers'') ''Gaode'') ''Normal'')]),
    Assign 274 (TName ''fig'') (Call (Attr (Name ''plt'') ''figure'') []),
    Assign 275 (TName ''ax'') (Call (Attr (Name ''fig'') ''add_subplot'')
      [IntLit 1, IntLit 1, IntLit 1]),
    ExprStmt 276 (Call (Attr (Name ''ax'') ''imshow'') [Name ''img'', Kw ''extent'' (Name ''ext'')]),
    ExprStmt 278 (Call
      (Attr (Call (Attr (Name ''data'') ''to_crs'') [Kw ''epsg'' (IntLit 3857)]) ''plot'')
      [Kw ''ax'' (Name ''ax''), Kw ''cmap'' (StrLit ''Set3''), Kw ''alpha'' (DecLit 8 1)]),
    Assign 279 (TName ''ax_bounds'')
      (Attr (Call (Attr (Name ''data'') ''to_crs'') [Kw ''epsg'' (IntLit 3857)]) ''total_bounds''),
    ExprStmt 280 (Call (Attr (Name ''ax'') ''set'')
      [Kw ''xlim'' (ListE [Subscript (Name ''ax_bounds'') (IntLit 0),
                          Subscript (Name ''ax_bounds'') (IntLit 2)]),
       Kw ''ylim'' (ListE [Subscript (Name ''ax_bounds'') (IntLit 1),
                          Subscript (Name ''ax_bounds'') (IntLit 3)])]),
    ExprStmt 281 (Call (Attr (Name ''plt'') ''axis'') [StrLit ''off'']),
    ExprStmt 282 (Call (Attr (Name ''plt'') ''savefig'') [StrLit ''watercolor_example.png'']),
    Assign 294 (TName ''m'') (Call (Attr (Name ''data'') ''explore'') [StrLit ''FloodClass'']),
    ExprStmt 295 (Name ''m''),
    Import 305 ''xyzservices.providers'' ''xyz'',
    ExprStmt 306 (Name ''xyz''),
    ExprStmt 312 (Call (Attr (Name ''data'') ''explore'')
      [StrLit ''FloodClass'', Kw ''tiles'' (Attr (Attr (Name ''xyz'') ''CartoDB'') ''Voyager'')]),
    Assign 320 (TName ''health_sites_gdf'') (Call (Attr (Name ''gpd'') ''read_file'')
      [StrLit ''philippines_healthsites.geojson'', Kw ''driver'' (StrLit ''GeoJSON'')]),
    ExprStmt 321 (Name ''health_sites_gdf''),
    ExprStmt 328 (Call (Attr (Name ''health_sites_gdf'') ''explore'') []),
    ExprStmt 334 (Attr (Name ''health_sites_gdf'') ''dtypes''),
    Assign 341 (TSubscript (Name ''health_sites_gdf'') (StrLit ''changeset_timestamp''))
      (Call (Attr (Subscript (Name ''health_sites_gdf'') (StrLit ''changeset_timestamp''))
         ''astype'') [Name ''str'']),
    Assign 348 (TName ''m'') (Call (Attr (Name ''data'') ''explore'')
      [StrLit ''FloodClass'', Kw ''tiles'' (Attr (Attr (Name ''xyz'') ''CartoDB'') ''Voyager'')]),
    Assign 350 (TName ''m'')
      (Call (Attr (Subscript (Name ''health_sites_gdf'') health_columns) ''explore'')
         [Kw ''m'' (Name ''m'')]),
    ExprStmt 357 (Name ''m''),
    Assign 365 (TName ''data_centroid'')
      (Subscript (Attr (Attr (Call (Attr (Name ''data'') ''dissolve'') []) ''centroid'') ''values'')
         (IntLit 0)),
    Assign 366 (TName ''m'') (Call (Attr (Name ''folium'') ''Map'')
      [Kw ''location'' (TupleE [Attr (Name ''data_centroid'') ''y'',
                               Attr (Name ''data_centroid'') ''x'']),
       Kw ''zoom_start'' (IntLit 5), Kw ''height'' (IntLit 600), Kw ''width'' (IntLit 500)]),
    Assign 369 (TName ''m'') (Call (Attr (Name ''data'') ''explore'')
      [StrLit ''FloodClass'', Kw ''tiles'' (Attr (Attr (Name ''xyz'') ''CartoDB'') ''Voyager''),
       Kw ''m'' (Name ''m''), Kw ''name'' (StrLit ''Flood Class'')]),
    Assign 374 (TName ''m'')
      (Call (Attr (Subscript (Name ''health_sites_gdf'') health_columns) ''explore'')
         [Kw ''m'' (Name ''m''), Kw ''name'' (StrLit ''healthcare'')]),
    ExprStmt 383 (Call (Attr (Call (Attr (Name ''folium'') ''LayerControl'') []) ''add_to'')
      [Name ''m'']),
    ExprStmt 384 (Name ''m''),
    ExprStmt 394 (Call (Attr (Call (Name ''get_ipython'') []) ''system'')
      [StrLit ''mkdir output_data -p'']),
    Assign 401 (TName ''outfp'') (StrLit ''output_data/data_selection.json''),
    Assign 404 (TName ''selection'') (Subscript (Name ''data'') (Slice (IntLit 0) (IntLit 20))),
    ExprStmt 407 (Call (Attr (Name ''selection'') ''to_file'')
      [Name ''outfp'', Kw ''driver'' (StrLit ''GeoJSON'')]),
    Assign 417 (TName ''newdata'') (Call (Attr (Name ''gpd'') ''GeoDataFrame'') []),
    Assign 420 (TSubscript (Name ''newdata'') (StrLit ''geometry'')) NoneLit,
    ExprStmt 423 (Call (Name ''print'') [Name ''newdata'']),
    Assign 430 (TName ''coordinates'') (ListE
      [TupleE [Neg (DecLit 71092562 6), DecLit 42357602 6],
       TupleE [Neg (DecLit 71080155 6), DecLit 42361553 6],
       TupleE [Neg (DecLit 71089817 6), DecLit 42362584 6],
       TupleE [Neg (DecLit 71094688 6), DecLit 42360198 6]]),
    Assign 433 (TName ''poly'') (Call (Name ''Polygon'') [Name ''coordinates'']),
    ExprStmt 436 (Name ''poly''),
    Assign 443 (TSubscript (Attr (Name ''newdata'') ''loc'')
      (TupleE [IntLit 0, StrLit ''geometry''])) (Name ''poly''),
    ExprStmt 444 (Name ''newdata''),
    Assign 450 (TSubscript (Attr (Name ''newdata'') ''loc'')
      (TupleE [IntLit 0, StrLit ''location''])) (StrLit ''MIT main campus''),
    ExprStmt 451 (Name ''newdata''),
    Assign 460 (TName ''newdata'')
      (Call (Attr (Name ''newdata'') ''set_crs'') [StrLit ''epsg:4326'']),
    ExprStmt 463 (Attr (Name ''newdata'') ''crs''),
    Assign 469 (TName ''outfp'') (StrLit ''output_data/MIT_campus.shp''),
    ExprStmt 472 (Call (Attr (Name ''newdata'') ''to_file'') [Name ''outfp'']),
    Assign 479 (TName ''ax'') (Call
      (Attr (Call (Attr (Name ''newdata'') ''to_crs'') [Kw ''epsg'' (IntLit 3857)]) ''plot'')
      [Kw ''figsize'' (TupleE [IntLit 10, IntLit 5]), Kw ''alpha'' (DecLit 5 1),
       Kw ''color'' (StrLit ''#FF55FF'')]),
    ExprStmt 480 (Call (Attr (Name ''ctx'') ''add_basemap'')
      [Name ''ax'', Kw ''source'' (Attr (Attr (Name ''xyz'') ''CartoDB'') ''Voyager'')]),
    ExprStmt 481 (Call (Attr (Name ''ax'') ''set_axis_off'') []),
    ExprStmt 482 (Call (Attr (Name ''plt'') ''savefig'') [StrLit ''MIT_main_campus_poly.png''])
  ]"

text \<open>
  The names the script reads without binding them: Python's builtins \<open>print\<close>,
  \<open>type\<close> and \<open>str\<close>, and \<open>get_ipython\<close>, which the notebook kernel provides.
\<close>

definition builtin_names :: "string list" where
  "builtin_names = [''get_ipython'', ''type'', ''str'', ''print'']"

section \<open>Reading the script\<close>

subsection \<open>Calls and names of an expression\<close>

text \<open>
  The call expressions of an expression, in the order Python runs them: those of the
  callee, those of the arguments from left to right, then the call itself.
\<close>

fun calls :: "expr \<Rightarrow> expr list" where
  "calls (Neg e) = calls e"
| "calls (Attr e a) = calls e"
| "calls (Call f args) = calls f @ concat (map calls args) @ [Call f args]"
| "calls (Kw k e) = calls e"
| "calls (Subscript e i) = calls e @ calls i"
| "calls (Slice a b) = calls a @ calls b"
| "calls (TupleE es) = concat (map calls es)"
| "calls (ListE es) = concat (map calls es)"
| "calls e = []"

text \<open>The names an expression reads.\<close>

fun names :: "expr \<Rightarrow> string list" where
  "names (Name x) = [x]"
| "names (Neg e) = names e"
| "names (Attr e a) = names e"
| "names (Call f args) = names f @ concat (map names args)"
| "names (Kw k e) = names e"
| "names (Subscript e i) = names e @ names i"
| "names (Slice a b) = names a @ names b"
| "names (TupleE es) = concat (map names es)"
| "names (ListE es) = concat (map names es)"
| "names e = []"

text \<open>
  The expressions a statement evaluates, in Python's order: for an assignment the right
  side first, then the object and the index of a subscript target.
\<close>

fun stmt_exprs :: "stmt \<Rightarrow> expr list" where
  "stmt_exprs (Import l m n) = []"
| "stmt_exprs (FromImport l m xs) = []"
| "stmt_exprs (ExprStmt l e) = [e]"
| "stmt_exprs (Assign l (TSubscript obj i) e) = [e, obj, i]"
| "stmt_exprs (Assign l t e) = [e]"

definition stmt_calls :: "stmt \<Rightarrow> expr list" where
  "stmt_calls s = concat (map calls (stmt_exprs s))"

definition stmt_reads :: "stmt \<Rightarrow> string list" where
  "stmt_reads s = concat (map names (stmt_exprs s))"

fun stmt_binds :: "stmt \<Rightarrow> string list" where
  "stmt_binds (Import l m n) = [n]"
| "stmt_binds (FromImport l m xs) = map snd xs"
| "stmt_binds (Assign l (TName x) e) = [x]"
| "stmt_binds (Assign l (TTuple xs) e) = xs"
| "stmt_binds s = []"

fun line_of :: "stmt \<Rightarrow> nat" where
  "line_of (Import l m n) = l"
| "line_of (FromImport l m xs) = l"
| "line_of (ExprStmt l e) = l"
| "line_of (Assign l t e) = l"

text \<open>The method a call invokes (\<open>f\<close> in \<open>e.f(args)\<close>) and its arguments.\<close>

fun method_of :: "expr \<Rightarrow> string option" where
  "method_of (Call (Attr e f) args) = Some f"
| "method_of e = None"

fun receiver_of :: "expr \<Rightarrow> expr option" where
  "receiver_of (Call (Attr e f) args) = Some e"
| "receiver_of e = None"

fun call_args :: "expr \<Rightarrow> expr list" where
  "call_args (Call f args) = args"
| "call_args e = []"

fun is_kw :: "expr \<Rightarrow> bool" where
  "is_kw (Kw k e) = True"
| "is_kw e = False"

definition positional :: "expr list \<Rightarrow> expr list" where
  "positional args = filter (\<lambda>a. \<not> is_kw a) args"

fun kw_arg :: "string \<Rightarrow> expr list \<Rightarrow> expr option" where
  "kw_arg k [] = None"
| "kw_arg k (Kw k' e # args) = (if k = k' then Some e else kw_arg k args)"
| "kw_arg k (a # args) = kw_arg k args"

definition invokes :: "string list \<Rightarrow> stmt \<Rightarrow> bool" where
  "invokes ms s = list_ex (\<lambda>c. case method_of c of Some f \<Rightarrow> f \<in> set ms | None \<Rightarrow> False)
     (stmt_calls s)"

subsection \<open>Where a value comes from\<close>

text \<open>
  The script is straight-line code, so what a name holds at a statement is decided by the
  statements before it. One pass from the top records, for every name bound so far, the
  origin of its value and the right side of its latest assignment. The origin of an
  expression is the origin of the name at the root of its chain of attribute accesses,
  calls and subscripts: \<open>data.to_crs(epsg=3857).plot(...)\<close> comes from \<open>data\<close>. A value
  taken from a module carries the module and the first attribute applied to it: \<open>data\<close>,
  bound to \<open>gpd.read_file(filepath)\<close>, comes from \<open>geopandas\<close> through \<open>read_file\<close>.
\<close>

datatype origin =
    FromModule string "string option"  \<comment> \<open>module, and the attribute of it the value came through\<close>
  | FromBuiltin string
  | FromLiteral
  | Unbound string

type_synonym env = "(string \<times> origin \<times> expr option) list"

fun root :: "expr \<Rightarrow> expr" where
  "root (Attr e a) = root e"
| "root (Call f args) = root f"
| "root (Subscript e i) = root e"
| "root e = e"

fun first_attr :: "expr \<Rightarrow> string option" where
  "first_attr (Attr (Name x) a) = Some a"
| "first_attr (Attr e a) = first_attr e"
| "first_attr (Call f args) = first_attr f"
| "first_attr (Subscript e i) = first_attr e"
| "first_attr e = None"

definition origin_of :: "env \<Rightarrow> expr \<Rightarrow> origin" where
  "origin_of env e =
     (case root e of
        Name x \<Rightarrow>
          (case map_of env x of
             Some (FromModule m None, d) \<Rightarrow> FromModule m (first_attr e)
           | Some (org, d) \<Rightarrow> org
           | None \<Rightarrow> if x \<in> set builtin_names then FromBuiltin x else Unbound x)
      | r \<Rightarrow> FromLiteral)"

fun bind_stmt :: "env \<Rightarrow> stmt \<Rightarrow> env" where
  "bind_stmt env (Import l m n) = (n, FromModule m None, None) # env"
| "bind_stmt env (FromImport l m xs) =
     rev (map (\<lambda>(x, y). (y, FromModule m (Some x), None)) xs) @ env"
| "bind_stmt env (Assign l (TName x) e) = (x, origin_of env e, Some e) # env"
| "bind_stmt env (Assign l (TTuple xs) e) =
     rev (map (\<lambda>x. (x, origin_of env e, Some e)) xs) @ env"
| "bind_stmt env s = env"

definition env_before :: "stmt list \<Rightarrow> nat \<Rightarrow> env" where
  "env_before prog i = foldl bind_stmt [] (take i prog)"

text \<open>
  \<open>holds_throughout P env prog\<close> checks \<open>P\<close> on every statement, each against the
  bindings of the statements before it.
\<close>

fun holds_throughout :: "(env \<Rightarrow> stmt \<Rightarrow> bool) \<Rightarrow> env \<Rightarrow> stmt list \<Rightarrow> bool" where
  "holds_throughout P env [] = True"
| "holds_throughout P env (s # ss) = (P env s \<and> holds_throughout P (bind_stmt env s) ss)"

subsection \<open>Vector files read and written\<close>

text \<open>
  geopandas reads a vector file with \<open>read_file\<close> and writes one with \<open>to_file\<close>. A
  file event records the line, the direction, the path (the first positional argument)
  and the \<open>driver\<close> keyword, each when it is a string literal or a name whose latest
  assignment is one.
\<close>

datatype io_kind = Reads | Writes

datatype file_event = FileEvent nat io_kind "string option" "string option"

fun resolve_str :: "env \<Rightarrow> expr \<Rightarrow> string option" where
  "resolve_str env (StrLit s) = Some s"
| "resolve_str env (Name x) =
     (case map_of env x of Some (org, Some (StrLit s)) \<Rightarrow> Some s | _ \<Rightarrow> None)"
| "resolve_str env e = None"

definition call_event :: "env \<Rightarrow> nat \<Rightarrow> expr \<Rightarrow> file_event list" where
  "call_event env l c =
     (let path = (case positional (call_args c) of [] \<Rightarrow> None | a # as \<Rightarrow> resolve_str env a);
          driver = (case kw_arg ''driver'' (call_args c) of None \<Rightarrow> None
                    | Some d \<Rightarrow> resolve_str env d)
      in if method_of c = Some ''read_file'' then [FileEvent l Reads path driver]
         else if method_of c = Some ''to_file'' then [FileEvent l Writes path driver]
         else [])"

fun file_events :: "env \<Rightarrow> stmt list \<Rightarrow> file_event list" where
  "file_events env [] = []"
| "file_events env (s # ss) =
     concat (map (call_event env (line_of s)) (stmt_calls s)) @ file_events (bind_stmt env s) ss"

text \<open>
  The format of a file event: the driver when one is given, else the one the extension
  of the path stands for.
\<close>

datatype vector_format = Shapefile | GeoJSON | OtherFormat

definition extension :: "string \<Rightarrow> string" where
  "extension p = rev (takeWhile (\<lambda>c. c \<noteq> CHR ''.'') (rev p))"

definition format_of_driver :: "string \<Rightarrow> vector_format" where
  "format_of_driver d =
     (if d = ''GeoJSON'' then GeoJSON else if d = ''ESRI Shapefile'' then Shapefile
      else OtherFormat)"

definition format_of_extension :: "string \<Rightarrow> vector_format" where
  "format_of_extension x =
     (if x = ''shp'' then Shapefile else if x = ''geojson'' \<or> x = ''json'' then GeoJSON
      else OtherFormat)"

fun event_format :: "file_event \<Rightarrow> vector_format" where
  "event_format (FileEvent l k p (Some d)) = format_of_driver d"
| "event_format (FileEvent l k (Some p) None) = format_of_extension (extension p)"
| "event_format (FileEvent l k None None) = OtherFormat"

fun event_extension :: "file_event \<Rightarrow> string option" where
  "event_extension (FileEvent l k p d) = map_option extension p"

subsection \<open>Stages of the pipeline\<close>

text \<open>
  A statement may only read names that an earlier statement has bound, or builtins.
\<close>

definition bound_or_builtin :: "env \<Rightarrow> string \<Rightarrow> bool" where
  "bound_or_builtin env x = (x \<in> set (map fst env) \<or> x \<in> set builtin_names)"

definition defined_before_use :: "env \<Rightarrow> stmt \<Rightarrow> bool" where
  "defined_before_use env s = list_all (bound_or_builtin env) (stmt_reads s)"

text \<open>
  A frame is \<^emph>\<open>loaded\<close> when it comes from \<open>gpd.read_file\<close>, and \<^emph>\<open>built\<close> when it
  comes from the constructor \<open>gpd.GeoDataFrame()\<close>.
\<close>

definition loaded_frame :: origin where
  "loaded_frame = FromModule ''geopandas'' (Some ''read_file'')"

definition built_frame :: origin where
  "built_frame = FromModule ''geopandas'' (Some ''GeoDataFrame'')"

definition calls_to :: "string list \<Rightarrow> stmt \<Rightarrow> expr list" where
  "calls_to ms s =
     filter (\<lambda>c. case method_of c of Some f \<Rightarrow> f \<in> set ms | None \<Rightarrow> False) (stmt_calls s)"

definition receiver_origin :: "env \<Rightarrow> expr \<Rightarrow> origin" where
  "receiver_origin env c =
     (case receiver_of c of Some r \<Rightarrow> origin_of env r | None \<Rightarrow> FromLiteral)"

text \<open>Every rendering call of the statement is made on a loaded frame.\<close>

definition renders_loaded :: "env \<Rightarrow> stmt \<Rightarrow> bool" where
  "renders_loaded env s =
     list_all (\<lambda>c. receiver_origin env c = loaded_frame) (calls_to [''plot'', ''explore''] s)"

text \<open>Every rendering call of the statement is made on a loaded or a built frame.\<close>

definition renders_produced :: "env \<Rightarrow> stmt \<Rightarrow> bool" where
  "renders_produced env s =
     list_all (\<lambda>c. receiver_origin env c = loaded_frame \<or> receiver_origin env c = built_frame)
       (calls_to [''plot'', ''explore''] s)"

definition latest_def :: "env \<Rightarrow> string \<Rightarrow> expr option" where
  "latest_def env x = (case map_of env x of Some (org, d) \<Rightarrow> d | None \<Rightarrow> None)"

text \<open>
  The first argument of an \<open>add_basemap\<close> call is a name whose latest assignment is the
  result of a \<open>plot\<close> call.
\<close>

definition on_plotted_axes :: "env \<Rightarrow> expr \<Rightarrow> bool" where
  "on_plotted_axes env c =
     (case positional (call_args c) of
        Name x # as \<Rightarrow>
          (case latest_def env x of Some d \<Rightarrow> method_of d = Some ''plot'' | None \<Rightarrow> False)
      | as \<Rightarrow> False)"

definition basemap_on_plot :: "env \<Rightarrow> stmt \<Rightarrow> bool" where
  "basemap_on_plot env s = list_all (on_plotted_axes env) (calls_to [''add_basemap''] s)"

text \<open>
  A statement that inspects a frame (reads a name whose value came from geopandas) or
  runs a later stage (reprojection, rendering, basemap overlay, export) runs after a file
  has been loaded: some name already holds a loaded frame.
\<close>

definition reads_frame :: "env \<Rightarrow> stmt \<Rightarrow> bool" where
  "reads_frame env s =
     list_ex (\<lambda>x. case map_of env x of
                    Some (FromModule m (Some a), d) \<Rightarrow> m = ''geopandas''
                  | _ \<Rightarrow> False) (stmt_reads s)"

definition loaded :: "env \<Rightarrow> bool" where
  "loaded env = list_ex (\<lambda>(x, org, d). org = loaded_frame) env"

definition later_stages :: "string list" where
  "later_stages = [''to_crs'', ''plot'', ''explore'', ''add_basemap'', ''to_file'']"

definition after_load :: "env \<Rightarrow> stmt \<Rightarrow> bool" where
  "after_load env s = (reads_frame env s \<or> invokes later_stages s \<longrightarrow> loaded env)"

text \<open>The lines of the statements on which \<open>P\<close> holds, each against the bindings before it.\<close>

fun lines_where :: "(env \<Rightarrow> stmt \<Rightarrow> bool) \<Rightarrow> env \<Rightarrow> stmt list \<Rightarrow> nat list" where
  "lines_where P env [] = []"
| "lines_where P env (s # ss) =
     (if P env s then [line_of s] else []) @ lines_where P (bind_stmt env s) ss"

subsection \<open>Calls into libraries\<close>







section \<open>Running the script\<close>

text \<open>
  Every operation of the script is carried out by code outside the repository: the
  Python runtime, the notebook kernel and the libraries. The evaluator below fixes only
  what the script itself decides (the order of evaluation, which names are read and
  bound, and that nothing catches an exception) and takes the rest as a parameter: a
  library is a record of operations, each of which reads and changes a world \<open>'w\<close> the
  script cannot see into (files, figures, the contents of frames) and either returns a
  value or raises an exception \<open>'x\<close>.
\<close>

subsection \<open>Values, exceptions, libraries and states\<close>

datatype 'o val =
    VStr string | VInt int | VDec int nat | VBool bool | VNone
  | VTuple "'o val list" | VList "'o val list"
  | VKw string "'o val"               \<comment> \<open>a keyword argument on its way to a call\<close>
  | VSlice "'o val" "'o val"
  | VObj 'o                           \<comment> \<open>an object of the runtime or of a library\<close>

datatype 'x exn =
    NameError string                  \<comment> \<open>a name read before it is bound\<close>
  | ValueError                        \<comment> \<open>unpacking a sequence of the wrong length\<close>
  | Raised 'x                         \<comment> \<open>an exception raised by a library operation\<close>

record ('o, 'x, 'w) lib =
  import_module :: "string \<Rightarrow> 'w \<Rightarrow> ('x + 'o val) \<times> 'w"
  import_from :: "'o val \<Rightarrow> string \<Rightarrow> 'w \<Rightarrow> ('x + 'o val) \<times> 'w"
  get_attr :: "'o val \<Rightarrow> string \<Rightarrow> 'w \<Rightarrow> ('x + 'o val) \<times> 'w"
  call :: "'o val \<Rightarrow> 'o val list \<Rightarrow> 'w \<Rightarrow> ('x + 'o val) \<times> 'w"
  get_item :: "'o val \<Rightarrow> 'o val \<Rightarrow> 'w \<Rightarrow> ('x + 'o val) \<times> 'w"
  set_item :: "'o val \<Rightarrow> 'o val \<Rightarrow> 'o val \<Rightarrow> 'w \<Rightarrow> ('x + unit) \<times> 'w"
  negate :: "'o val \<Rightarrow> 'w \<Rightarrow> ('x + 'o val) \<times> 'w"
  unpack :: "'o val \<Rightarrow> nat \<Rightarrow> 'w \<Rightarrow> ('x + 'o val list) \<times> 'w"

text \<open>
  The state of a run: the names bound so far (latest first), the world, and a journal of
  the exceptions the library has raised. The journal is not part of the program; it is
  kept so that a theorem can say what became of every exception.
\<close>

record ('o, 'x, 'w) state =
  vars :: "(string \<times> 'o val) list"
  world :: 'w
  raised :: "'x list"

type_synonym ('o, 'x, 'w, 'a) result = "('x exn + 'a) \<times> ('o, 'x, 'w) state"

text \<open>
  \<open>perform\<close> runs one library operation. \<open>and_then\<close> sequences two steps the way
  Python does where nothing catches: when the first step raises, the second does not run
  and the exception is the result, with the state as the first step left it.
\<close>

definition perform ::
  "('w \<Rightarrow> ('x + 'a) \<times> 'w) \<Rightarrow> ('o, 'x, 'w) state \<Rightarrow> ('o, 'x, 'w, 'a) result" where
  "perform op \<sigma> =
     (case op (world \<sigma>) of
        (Inl x, w) \<Rightarrow> (Inl (Raised x), \<sigma>\<lparr>world := w, raised := raised \<sigma> @ [x]\<rparr>)
      | (Inr a, w) \<Rightarrow> (Inr a, \<sigma>\<lparr>world := w\<rparr>))"

definition and_then ::
  "('o, 'x, 'w, 'a) result \<Rightarrow> ('a \<Rightarrow> ('o, 'x, 'w) state \<Rightarrow> ('o, 'x, 'w, 'b) result)
     \<Rightarrow> ('o, 'x, 'w, 'b) result" where
  "and_then r f = (case r of (Inl x, \<sigma>) \<Rightarrow> (Inl x, \<sigma>) | (Inr a, \<sigma>) \<Rightarrow> f a \<sigma>)"

subsection \<open>Expressions\<close>

text \<open>
  Python evaluates the callee before the arguments, the arguments from left to right,
  and the object of a subscript before the index. Reading a name that is not bound
  raises \<open>NameError\<close>. The minus sign of a number literal is computed; any other
  negation is the library's.
\<close>

fun eval :: "('o, 'x, 'w) lib \<Rightarrow> expr \<Rightarrow> ('o, 'x, 'w) state \<Rightarrow> ('o, 'x, 'w, 'o val) result"
and eval_list ::
  "('o, 'x, 'w) lib \<Rightarrow> expr list \<Rightarrow> ('o, 'x, 'w) state \<Rightarrow> ('o, 'x, 'w, 'o val list) result"
where
  "eval L (Name x) \<sigma> =
     (case map_of (vars \<sigma>) x of Some v \<Rightarrow> (Inr v, \<sigma>) | None \<Rightarrow> (Inl (NameError x), \<sigma>))"
| "eval L (StrLit s) \<sigma> = (Inr (VStr s), \<sigma>)"
| "eval L (IntLit n) \<sigma> = (Inr (VInt n), \<sigma>)"
| "eval L (DecLit m k) \<sigma> = (Inr (VDec m k), \<sigma>)"
| "eval L (BoolLit b) \<sigma> = (Inr (VBool b), \<sigma>)"
| "eval L NoneLit \<sigma> = (Inr VNone, \<sigma>)"
| "eval L (Neg e) \<sigma> =
     and_then (eval L e \<sigma>) (\<lambda>v \<sigma>'.
       case v of VInt n \<Rightarrow> (Inr (VInt (- n)), \<sigma>')
       | VDec m k \<Rightarrow> (Inr (VDec (- m) k), \<sigma>')
       | _ \<Rightarrow> perform (negate L v) \<sigma>')"
| "eval L (Attr e a) \<sigma> = and_then (eval L e \<sigma>) (\<lambda>v. perform (get_attr L v a))"
| "eval L (Call f args) \<sigma> =
     and_then (eval L f \<sigma>) (\<lambda>fv \<sigma>1.
       and_then (eval_list L args \<sigma>1) (\<lambda>vs. perform (call L fv vs)))"
| "eval L (Kw k e) \<sigma> = and_then (eval L e \<sigma>) (\<lambda>v \<sigma>'. (Inr (VKw k v), \<sigma>'))"
| "eval L (Subscript e i) \<sigma> =
     and_then (eval L e \<sigma>) (\<lambda>v \<sigma>1.
       and_then (eval L i \<sigma>1) (\<lambda>iv. perform (get_item L v iv)))"
| "eval L (Slice a b) \<sigma> =
     and_then (eval L a \<sigma>) (\<lambda>av \<sigma>1.
       and_then (eval L b \<sigma>1) (\<lambda>bv \<sigma>2. (Inr (VSlice av bv), \<sigma>2)))"
| "eval L (TupleE es) \<sigma> = and_then (eval_list L es \<sigma>) (\<lambda>vs \<sigma>'. (Inr (VTuple vs), \<sigma>'))"
| "eval L (ListE es) \<sigma> = and_then (eval_list L es \<sigma>) (\<lambda>vs \<sigma>'. (Inr (VList vs), \<sigma>'))"
| "eval_list L [] \<sigma> = (Inr [], \<sigma>)"
| "eval_list L (e # es) \<sigma> =
     and_then (eval L e \<sigma>) (\<lambda>v \<sigma>1.
       and_then (eval_list L es \<sigma>1) (\<lambda>vs \<sigma>2. (Inr (v # vs), \<sigma>2)))"

subsection \<open>Statements\<close>

text \<open>
  \<open>from m import x as y, ...\<close> imports the module, then fetches and binds the names
  one after the other. An assignment evaluates its right side first; a tuple target
  unpacks the value into as many parts as it has names, and a subscript target then
  evaluates the object and the index and stores through the library.
\<close>

fun from_names ::
  "('o, 'x, 'w) lib \<Rightarrow> 'o val \<Rightarrow> (string \<times> string) list \<Rightarrow> ('o, 'x, 'w) state
     \<Rightarrow> ('o, 'x, 'w, unit) result" where
  "from_names L mv [] \<sigma> = (Inr (), \<sigma>)"
| "from_names L mv ((x, y) # xs) \<sigma> =
     and_then (perform (import_from L mv x) \<sigma>) (\<lambda>v \<sigma>'.
       from_names L mv xs (\<sigma>'\<lparr>vars := (y, v) # vars \<sigma>'\<rparr>))"

definition exactly ::
  "nat \<Rightarrow> 'o val list \<Rightarrow> ('o, 'x, 'w) state \<Rightarrow> ('o, 'x, 'w, 'o val list) result" where
  "exactly n vs \<sigma> = (if length vs = n then (Inr vs, \<sigma>) else (Inl ValueError, \<sigma>))"

fun unpack_val ::
  "('o, 'x, 'w) lib \<Rightarrow> 'o val \<Rightarrow> nat \<Rightarrow> ('o, 'x, 'w) state
     \<Rightarrow> ('o, 'x, 'w, 'o val list) result" where
  "unpack_val L (VTuple vs) n \<sigma> = exactly n vs \<sigma>"
| "unpack_val L (VList vs) n \<sigma> = exactly n vs \<sigma>"
| "unpack_val L v n \<sigma> = and_then (perform (unpack L v n) \<sigma>) (exactly n)"

fun exec ::
  "('o, 'x, 'w) lib \<Rightarrow> stmt \<Rightarrow> ('o, 'x, 'w) state \<Rightarrow> ('o, 'x, 'w, unit) result" where
  "exec L (Import l m n) \<sigma> =
     and_then (perform (import_module L m) \<sigma>) (\<lambda>v \<sigma>'.
       (Inr (), \<sigma>'\<lparr>vars := (n, v) # vars \<sigma>'\<rparr>))"
| "exec L (FromImport l m xs) \<sigma> =
     and_then (perform (import_module L m) \<sigma>) (\<lambda>mv. from_names L mv xs)"
| "exec L (ExprStmt l e) \<sigma> = and_then (eval L e \<sigma>) (\<lambda>v \<sigma>'. (Inr (), \<sigma>'))"
| "exec L (Assign l (TName x) e) \<sigma> =
     and_then (eval L e \<sigma>) (\<lambda>v \<sigma>'. (Inr (), \<sigma>'\<lparr>vars := (x, v) # vars \<sigma>'\<rparr>))"
| "exec L (Assign l (TTuple xs) e) \<sigma> =
     and_then (eval L e \<sigma>) (\<lambda>v \<sigma>1.
       and_then (unpack_val L v (length xs) \<sigma>1) (\<lambda>vs \<sigma>2.
         (Inr (), \<sigma>2\<lparr>vars := rev (zip xs vs) @ vars \<sigma>2\<rparr>)))"
| "exec L (Assign l (TSubscript obj i) e) \<sigma> =
     and_then (eval L e \<sigma>) (\<lambda>v \<sigma>1.
       and_then (eval L obj \<sigma>1) (\<lambda>ov \<sigma>2.
         and_then (eval L i \<sigma>2) (\<lambda>iv. perform (set_item L ov iv v))))"

text \<open>The script runs its statements from the top and stops at the first exception.\<close>

fun run ::
  "('o, 'x, 'w) lib \<Rightarrow> stmt list \<Rightarrow> ('o, 'x, 'w) state \<Rightarrow> ('o, 'x, 'w, unit) result" where
  "run L [] \<sigma> = (Inr (), \<sigma>)"
| "run L (s # ss) \<sigma> = and_then (exec L s \<sigma>) (\<lambda>u. run L ss)"

subsection \<open>What a run may be asked\<close>

text \<open>The library exception a result stands for, if any.\<close>

fun raised_by :: "'x exn \<Rightarrow> 'x list" where
  "raised_by (Raised x) = [x]"
| "raised_by e = []"

fun library_exception :: "'x exn + 'a \<Rightarrow> 'x list" where
  "library_exception (Inl e) = raised_by e"
| "library_exception (Inr a) = []"

text \<open>
  \<open>journal \<sigma> res\<close>: the step from \<open>\<sigma>\<close> to the result added to the journal exactly the
  library exception the result reports. \<open>same_vars\<close>: the step bound no name.
\<close>

definition journal :: "('o, 'x, 'w) state \<Rightarrow> ('o, 'x, 'w, 'a) result \<Rightarrow> bool" where
  "journal \<sigma> res = (raised (snd res) = raised \<sigma> @ library_exception (fst res))"

definition same_vars :: "('o, 'x, 'w) state \<Rightarrow> ('o, 'x, 'w, 'a) result \<Rightarrow> bool" where
  "same_vars \<sigma> res = (vars (snd res) = vars \<sigma>)"

definition no_name_error :: "('o, 'x, 'w, 'a) result \<Rightarrow> bool" where
  "no_name_error res = (case fst res of Inl (NameError x) \<Rightarrow> False | _ \<Rightarrow> True)"

definition bound_in :: "('o, 'x, 'w) state \<Rightarrow> string list \<Rightarrow> bool" where
  "bound_in \<sigma> xs = list_all (\<lambda>x. x \<in> set (map fst (vars \<sigma>))) xs"

text \<open>The state binds every name the pass over the script has recorded, and the builtins.\<close>

definition agrees :: "env \<Rightarrow> ('o, 'x, 'w) state \<Rightarrow> bool" where
  "agrees env \<sigma> = (set (map fst env) \<union> set builtin_names \<subseteq> set (map fst (vars \<sigma>)))"

subsection \<open>A library to run the script against\<close>

text \<open>
  A library for concrete runs. An object is the text of the expression that produced it,
  the world is the list of the calls that returned, and a call raises when the table
  \<open>failing\<close> names its callee. \<open>missing_file\<close> is the library in which
  \<open>gpd.read_file\<close> raises; \<open>start\<close> is the state of a fresh notebook kernel, which
  binds the builtins.
\<close>

fun describe :: "string val \<Rightarrow> string" where
  "describe (VObj d) = d"
| "describe (VStr s) = s"
| "describe v = ''value''"

definition demo_lib :: "(string \<times> string) list \<Rightarrow> (string, string, string list) lib" where
  "demo_lib failing = \<lparr>
     import_module = (\<lambda>m w. (Inr (VObj m), w)),
     import_from = (\<lambda>mv x w. (Inr (VObj (describe mv @ ''.'' @ x)), w)),
     get_attr = (\<lambda>v a w. (Inr (VObj (describe v @ ''.'' @ a)), w)),
     call = (\<lambda>f args w.
       case map_of failing (describe f) of
         Some x \<Rightarrow> (Inl x, w)
       | None \<Rightarrow> (Inr (VObj (describe f @ ''()'')), w @ [describe f])),
     get_item = (\<lambda>v i w. (Inr (VObj (describe v @ ''[]'')), w)),
     set_item = (\<lambda>v i x w. (Inr (), w)),
     negate = (\<lambda>v w. (Inr v, w)),
     unpack = (\<lambda>v n w. (Inr (replicate n (VObj (describe v @ ''[]''))), w)) \<rparr>"

definition missing_file :: "(string, string, string list) lib" where
  "missing_file = demo_lib [(''geopandas.read_file'', ''FileNotFoundError'')]"

definition start :: "(string, string, string list) state" where
  "start = \<lparr> vars = map (\<lambda>b. (b, VObj b)) builtin_names, world = [], raised = [] \<rparr>"

text \<open>The state in which the run against \<open>missing_file\<close> ends.\<close>

definition stopped_at_load :: "(string, string, string list) state" where
  "stopped_at_load = \<lparr>
     vars =
       [(''filepath'',
         VStr ''philippines_flood_risk/phl_ica_floodrisk_geonode_mar2014.shp''),
        (''fiona'', VObj ''fiona''), (''folium'', VObj ''folium''),
        (''plt'', VObj ''matplotlib.pyplot''),
        (''Polygon'', VObj ''shapely.geometry.Polygon''),
        (''LineString'', VObj ''shapely.geometry.LineString''),
        (''Point'', VObj ''shapely.geometry.Point''),
        (''ctx'', VObj ''contextily''), (''gpd'', VObj ''geopandas''),
        (''get_ipython'', VObj ''get_ipython''), (''type'', VObj ''type''),
        (''str'', VObj ''str''), (''print'', VObj ''print'')],
     world = [''get_ipython'', ''get_ipython().system''],
     raised = [''FileNotFoundError''] \<rparr>"

section \<open>Properties of the evaluator\<close>

subsection \<open>A check on every statement holds at every position\<close>

lemma holds_throughout_nth:
  "holds_throughout P env prog \<Longrightarrow> i < length prog
     \<Longrightarrow> P (foldl bind_stmt env (take i prog)) (prog ! i)"
proof (induction prog arbitrary: env i)
  case Nil
  then show ?case by simp
next
  case (Cons s ss)
  show ?case
  proof (cases i)
    case 0
    with Cons.prems show ?thesis by simp
  next
    case (Suc j)
    with Cons.prems have "holds_throughout P (bind_stmt env s) ss" and "j < length ss"
      by simp_all
    then have "P (foldl bind_stmt (bind_stmt env s) (take j ss)) (ss ! j)"
      by (rule Cons.IH)
    with Suc show ?thesis by simp
  qed
qed


subsection \<open>Exceptions are journalled and never caught\<close>

lemma journal_perform: "journal \<sigma> (perform op \<sigma>)"
  by (simp add: journal_def perform_def split: prod.splits sum.splits)

lemma same_vars_perform: "same_vars \<sigma> (perform op \<sigma>)"
  by (simp add: same_vars_def perform_def split: prod.splits sum.splits)

lemma journal_pure: "journal \<sigma> (Inr a, \<sigma>)"
  by (simp add: journal_def)

lemma same_vars_pure: "same_vars \<sigma> (r, \<sigma>)"
  by (simp add: same_vars_def)

lemma journal_and_then:
  assumes "journal \<sigma> m" and "\<And>a \<sigma>1. journal \<sigma>1 (f a \<sigma>1)"
  shows "journal \<sigma> (and_then m f)"
proof (cases m)
  case (Pair r \<sigma>1)
  show ?thesis
  proof (cases r)
    case (Inl x)
    with Pair assms(1) show ?thesis by (simp add: and_then_def journal_def)
  next
    case (Inr a)
    with Pair assms(1) have "raised \<sigma>1 = raised \<sigma>" by (simp add: journal_def)
    moreover from assms(2) have "journal \<sigma>1 (f a \<sigma>1)" .
    ultimately show ?thesis using Pair Inr by (simp add: and_then_def journal_def)
  qed
qed

lemma same_vars_and_then:
  assumes "same_vars \<sigma> m" and "\<And>a \<sigma>1. same_vars \<sigma>1 (f a \<sigma>1)"
  shows "same_vars \<sigma> (and_then m f)"
proof (cases m)
  case (Pair r \<sigma>1)
  show ?thesis
  proof (cases r)
    case (Inl x)
    with Pair assms(1) show ?thesis by (simp add: and_then_def same_vars_def)
  next
    case (Inr a)
    with Pair assms(1) have "vars \<sigma>1 = vars \<sigma>" by (simp add: same_vars_def)
    moreover from assms(2) have "same_vars \<sigma>1 (f a \<sigma>1)" .
    ultimately show ?thesis using Pair Inr by (simp add: and_then_def same_vars_def)
  qed
qed

lemma journal_negated:
  "journal \<sigma> (case v of VInt n \<Rightarrow> (Inr (VInt (- n)), \<sigma>)
     | VDec m k \<Rightarrow> (Inr (VDec (- m) k), \<sigma>) | _ \<Rightarrow> perform (negate L v) \<sigma>)"
  by (cases v) (simp_all add: journal_pure journal_perform)

lemma same_vars_negated:
  "same_vars \<sigma> (case v of VInt n \<Rightarrow> (Inr (VInt (- n)), \<sigma>)
     | VDec m k \<Rightarrow> (Inr (VDec (- m) k), \<sigma>) | _ \<Rightarrow> perform (negate L v) \<sigma>)"
  by (cases v) (simp_all add: same_vars_pure same_vars_perform)

lemma journal_eval:
  "journal \<sigma> (eval L e \<sigma>)" and "journal \<sigma> (eval_list L es \<sigma>)"
proof (induction L e \<sigma> and L es \<sigma> rule: eval_eval_list.induct)
  case (1 L x \<sigma>)
  then show ?case by (simp add: journal_def split: option.splits)
qed (auto intro!: journal_and_then journal_perform journal_pure journal_negated)

lemma same_vars_eval:
  "same_vars \<sigma> (eval L e \<sigma>)" and "same_vars \<sigma> (eval_list L es \<sigma>)"
proof (induction L e \<sigma> and L es \<sigma> rule: eval_eval_list.induct)
  case (1 L x \<sigma>)
  then show ?case by (simp add: same_vars_def split: option.splits)
qed (auto intro!: same_vars_and_then same_vars_perform same_vars_pure same_vars_negated)


lemma journal_from_names: "journal \<sigma> (from_names L mv xs \<sigma>)"
proof (induction xs arbitrary: \<sigma>)
  case Nil
  then show ?case by (simp add: journal_pure)
next
  case (Cons p xs)
  obtain x y where p: "p = (x, y)" by (cases p)
  have "\<And>v \<sigma>1. journal \<sigma>1 (from_names L mv xs (\<sigma>1\<lparr>vars := (y, v) # vars \<sigma>1\<rparr>))"
    using Cons.IH [of "\<sigma>1\<lparr>vars := (y, v) # vars \<sigma>1\<rparr>" for \<sigma>1 v] by (simp add: journal_def)
  then show ?case unfolding p from_names.simps
    by (intro journal_and_then journal_perform)
qed

lemma journal_exactly: "journal \<sigma> (exactly n vs \<sigma>)"
  by (simp add: exactly_def journal_def)

lemma journal_unpack_val: "journal \<sigma> (unpack_val L v n \<sigma>)"
  by (cases v) (auto intro!: journal_and_then journal_perform journal_exactly)

lemma journal_bound: "journal \<sigma> (Inr a, \<sigma>\<lparr>vars := vs\<rparr>)"
  by (simp add: journal_def)

lemma journal_exec: "journal \<sigma> (exec L s \<sigma>)"
proof (induction L s \<sigma> rule: exec.induct)
qed (auto intro!: journal_and_then journal_perform journal_eval journal_from_names
      journal_unpack_val journal_bound journal_pure)

lemma journal_run: "journal \<sigma> (run L prog \<sigma>)"
  by (induction prog arbitrary: \<sigma>) (auto intro!: journal_and_then journal_exec journal_pure)

lemma run_stops_at_failure:
  "run L prog \<sigma> = (Inl e, \<sigma>') \<Longrightarrow>
     \<exists>k<length prog. \<exists>\<sigma>k. run L (take k prog) \<sigma> = (Inr (), \<sigma>k)
       \<and> exec L (prog ! k) \<sigma>k = (Inl e, \<sigma>')"
proof (induction prog arbitrary: \<sigma>)
  case Nil
  then show ?case by simp
next
  case (Cons s ss)
  obtain r \<sigma>1 where ex: "exec L s \<sigma> = (r, \<sigma>1)" by (cases "exec L s \<sigma>")
  show ?case
  proof (cases r)
    case (Inl x)
    with ex Cons.prems have "exec L s \<sigma> = (Inl e, \<sigma>')" by (simp add: and_then_def)
    then have "run L (take 0 (s # ss)) \<sigma> = (Inr (), \<sigma>)
        \<and> exec L ((s # ss) ! 0) \<sigma> = (Inl e, \<sigma>')" by simp
    then show ?thesis by (intro exI [of _ 0]) auto
  next
    case (Inr u)
    with ex Cons.prems have "run L ss \<sigma>1 = (Inl e, \<sigma>')" by (simp add: and_then_def)
    from Cons.IH [OF this] obtain k \<sigma>k where k: "k < length ss"
      and pre: "run L (take k ss) \<sigma>1 = (Inr (), \<sigma>k)"
      and fail: "exec L (ss ! k) \<sigma>k = (Inl e, \<sigma>')" by blast
    from ex Inr pre have "run L (take (Suc k) (s # ss)) \<sigma> = (Inr (), \<sigma>k)"
      by (simp add: and_then_def)
    with k fail show ?thesis by (intro exI [of _ "Suc k"]) auto
  qed
qed

subsection \<open>Names bound before they are read\<close>

lemma no_name_error_perform: "no_name_error (perform op \<sigma>)"
  by (simp add: no_name_error_def perform_def split: prod.splits sum.splits)

lemma no_name_error_pure: "no_name_error (Inr a, \<sigma>)"
  by (simp add: no_name_error_def)

lemma no_name_error_and_then:
  assumes "no_name_error m" and "\<And>a \<sigma>1. m = (Inr a, \<sigma>1) \<Longrightarrow> no_name_error (f a \<sigma>1)"
  shows "no_name_error (and_then m f)"
proof (cases m)
  case (Pair r \<sigma>1)
  show ?thesis
  proof (cases r)
    case (Inl e)
    with Pair assms(1) show ?thesis by (simp add: and_then_def no_name_error_def)
  next
    case (Inr a)
    with Pair assms(2) show ?thesis by (simp add: and_then_def)
  qed
qed

lemma bound_in_same_vars:
  assumes "same_vars \<sigma> m" and "m = (r, \<sigma>1)"
  shows "bound_in \<sigma>1 xs = bound_in \<sigma> xs"
  using assms by (simp add: same_vars_def bound_in_def)

lemma bound_in_append: "bound_in \<sigma> (xs @ ys) = (bound_in \<sigma> xs \<and> bound_in \<sigma> ys)"
  by (simp add: bound_in_def)

lemma no_name_error_negated:
  "no_name_error (case v of VInt n \<Rightarrow> (Inr (VInt (- n)), \<sigma>)
     | VDec m k \<Rightarrow> (Inr (VDec (- m) k), \<sigma>) | _ \<Rightarrow> perform (negate L v) \<sigma>)"
  by (cases v) (simp_all add: no_name_error_pure no_name_error_perform)

lemma no_name_error_eval:
  "bound_in \<sigma> (names e) \<Longrightarrow> no_name_error (eval L e \<sigma>)"
  "bound_in \<sigma> (concat (map names es)) \<Longrightarrow> no_name_error (eval_list L es \<sigma>)"
proof (induction L e \<sigma> and L es \<sigma> rule: eval_eval_list.induct)
  case (1 L x \<sigma>)
  then have "x \<in> fst ` set (vars \<sigma>)" by (simp add: bound_in_def)
  then have "map_of (vars \<sigma>) x \<noteq> None" by (simp add: map_of_eq_None_iff)
  then show ?case by (auto simp: no_name_error_def)
next
  case (9 L f args \<sigma>)
  from 9 have f: "bound_in \<sigma> (names f)" and a: "bound_in \<sigma> (concat (map names args))"
    by (simp_all add: bound_in_append)
  show ?case unfolding eval.simps
  proof (intro no_name_error_and_then no_name_error_perform)
    show "no_name_error (eval L f \<sigma>)" using f by (rule 9)
  next
    fix fv \<sigma>1 assume "eval L f \<sigma> = (Inr fv, \<sigma>1)"
    with a have "bound_in \<sigma>1 (concat (map names args))"
      using bound_in_same_vars [OF same_vars_eval(1)] by metis
    then show "no_name_error (eval_list L args \<sigma>1)" by (rule 9)
  qed
next
  case (11 L e i \<sigma>)
  from 11 have e: "bound_in \<sigma> (names e)" and i: "bound_in \<sigma> (names i)"
    by (simp_all add: bound_in_append)
  show ?case unfolding eval.simps
  proof (intro no_name_error_and_then no_name_error_perform)
    show "no_name_error (eval L e \<sigma>)" using e by (rule 11)
  next
    fix v \<sigma>1 assume "eval L e \<sigma> = (Inr v, \<sigma>1)"
    with i have "bound_in \<sigma>1 (names i)"
      using bound_in_same_vars [OF same_vars_eval(1)] by metis
    then show "no_name_error (eval L i \<sigma>1)" by (rule 11)
  qed
next
  case (12 L a b \<sigma>)
  from 12 have a: "bound_in \<sigma> (names a)" and b: "bound_in \<sigma> (names b)"
    by (simp_all add: bound_in_append)
  show ?case unfolding eval.simps
  proof (intro no_name_error_and_then no_name_error_pure)
    show "no_name_error (eval L a \<sigma>)" using a by (rule 12)
  next
    fix v \<sigma>1 assume "eval L a \<sigma> = (Inr v, \<sigma>1)"
    with b have "bound_in \<sigma>1 (names b)"
      using bound_in_same_vars [OF same_vars_eval(1)] by metis
    then show "no_name_error (eval L b \<sigma>1)" by (rule 12)
  qed
next
  case (16 L e es \<sigma>)
  from 16 have e: "bound_in \<sigma> (names e)" and es: "bound_in \<sigma> (concat (map names es))"
    by (simp_all add: bound_in_append)
  show ?case unfolding eval_list.simps
  proof (intro no_name_error_and_then no_name_error_pure)
    show "no_name_error (eval L e \<sigma>)" using e by (rule 16)
  next
    fix v \<sigma>1 assume "eval L e \<sigma> = (Inr v, \<sigma>1)"
    with es have "bound_in \<sigma>1 (concat (map names es))"
      using bound_in_same_vars [OF same_vars_eval(1)] by metis
    then show "no_name_error (eval_list L es \<sigma>1)" by (rule 16)
  qed
qed (auto intro!: no_name_error_and_then no_name_error_perform no_name_error_pure
      no_name_error_negated)


lemma and_then_Inr:
  assumes "and_then m f = (Inr b, \<sigma>')"
  obtains a \<sigma>1 where "m = (Inr a, \<sigma>1)" and "f a \<sigma>1 = (Inr b, \<sigma>')"
proof (cases m)
  case (Pair r \<sigma>1)
  with assms that show ?thesis by (cases r) (auto simp: and_then_def)
qed

lemma vars_perform: "perform op \<sigma> = (r, \<sigma>') \<Longrightarrow> vars \<sigma>' = vars \<sigma>"
  using same_vars_perform [of \<sigma> op] by (simp add: same_vars_def)

lemma vars_eval: "eval L e \<sigma> = (r, \<sigma>') \<Longrightarrow> vars \<sigma>' = vars \<sigma>"
  using same_vars_eval(1) [of \<sigma> L e] by (simp add: same_vars_def)

lemma names_from_names:
  "from_names L mv xs \<sigma> = (Inr u, \<sigma>') \<Longrightarrow>
     set (map fst (vars \<sigma>')) = set (map snd xs) \<union> set (map fst (vars \<sigma>))"
proof (induction xs arbitrary: \<sigma>)
  case Nil
  then show ?case by simp
next
  case (Cons p xs)
  obtain x y where p: "p = (x, y)" by (cases p)
  from Cons.prems obtain v \<sigma>1 where
    imp: "perform (import_from L mv x) \<sigma> = (Inr v, \<sigma>1)" and
    rest: "from_names L mv xs (\<sigma>1\<lparr>vars := (y, v) # vars \<sigma>1\<rparr>) = (Inr u, \<sigma>')"
    unfolding p from_names.simps by (rule and_then_Inr)
  from vars_perform [OF imp] Cons.IH [OF rest] show ?case by (auto simp: p)
qed

lemma exactly_Inr: "exactly n vs \<sigma> = (Inr ws, \<sigma>') \<Longrightarrow> length ws = n \<and> \<sigma>' = \<sigma>"
  by (auto simp: exactly_def split: if_splits)

lemma unpack_val_Inr:
  "unpack_val L v n \<sigma> = (Inr ws, \<sigma>') \<Longrightarrow> length ws = n \<and> vars \<sigma>' = vars \<sigma>"
  by (cases v) (auto dest!: exactly_Inr vars_perform elim!: and_then_Inr)

lemma names_exec:
  "exec L s \<sigma> = (Inr u, \<sigma>') \<Longrightarrow>
     set (map fst (vars \<sigma>')) = set (stmt_binds s) \<union> set (map fst (vars \<sigma>))"
proof (induction L s \<sigma> rule: exec.induct)
  case (2 L l m xs \<sigma>)
  from 2 obtain mv \<sigma>1 where a: "perform (import_module L m) \<sigma> = (Inr mv, \<sigma>1)"
    and b: "from_names L mv xs \<sigma>1 = (Inr u, \<sigma>')"
    unfolding exec.simps by (rule and_then_Inr)
  from names_from_names [OF b] vars_perform [OF a] show ?case by simp
next
  case (5 L l xs e \<sigma>)
  from 5 obtain v \<sigma>1 where a: "eval L e \<sigma> = (Inr v, \<sigma>1)"
    and b: "and_then (unpack_val L v (length xs) \<sigma>1)
       (\<lambda>vs \<sigma>2. (Inr (), \<sigma>2\<lparr>vars := rev (zip xs vs) @ vars \<sigma>2\<rparr>)) = (Inr u, \<sigma>')"
    unfolding exec.simps by (rule and_then_Inr)
  from b obtain vs \<sigma>2 where c: "unpack_val L v (length xs) \<sigma>1 = (Inr vs, \<sigma>2)"
    and d: "\<sigma>' = \<sigma>2\<lparr>vars := rev (zip xs vs) @ vars \<sigma>2\<rparr>"
    by (rule and_then_Inr) simp
  from unpack_val_Inr [OF c] have len: "length vs = length xs" and "vars \<sigma>2 = vars \<sigma>1"
    by simp_all
  with vars_eval [OF a] d have "vars \<sigma>' = rev (zip xs vs) @ vars \<sigma>" by simp
  moreover from len have "map fst (zip xs vs) = xs" by simp
  then have "fst ` set (zip xs vs) = set xs" by (metis set_map)
  ultimately show ?case by simp
qed (auto elim!: and_then_Inr dest!: vars_perform vars_eval)

lemma no_name_error_from_names: "no_name_error (from_names L mv xs \<sigma>)"
proof (induction xs arbitrary: \<sigma>)
  case Nil
  then show ?case by (simp add: no_name_error_pure)
next
  case (Cons p xs)
  obtain x y where p: "p = (x, y)" by (cases p)
  show ?case unfolding p from_names.simps
    by (intro no_name_error_and_then no_name_error_perform Cons.IH)
qed

lemma no_name_error_exactly: "no_name_error (exactly n vs \<sigma>)"
  by (simp add: exactly_def no_name_error_def)

lemma no_name_error_unpack_val: "no_name_error (unpack_val L v n \<sigma>)"
  by (cases v)
    (auto intro!: no_name_error_and_then no_name_error_perform no_name_error_exactly)

lemma bound_in_vars: "vars \<sigma>1 = vars \<sigma> \<Longrightarrow> bound_in \<sigma>1 xs = bound_in \<sigma> xs"
  by (simp add: bound_in_def)

lemma no_name_error_exec:
  "bound_in \<sigma> (stmt_reads s) \<Longrightarrow> no_name_error (exec L s \<sigma>)"
proof (induction L s \<sigma> rule: exec.induct)
  case (6 L l obj i e \<sigma>)
  then have e: "bound_in \<sigma> (names e)" and obj: "bound_in \<sigma> (names obj)"
    and i: "bound_in \<sigma> (names i)"
    by (simp_all add: stmt_reads_def bound_in_append)
  show ?case unfolding exec.simps
  proof (intro no_name_error_and_then no_name_error_perform)
    show "no_name_error (eval L e \<sigma>)" using e by (rule no_name_error_eval)
  next
    fix v \<sigma>1 assume 1: "eval L e \<sigma> = (Inr v, \<sigma>1)"
    with obj have "bound_in \<sigma>1 (names obj)" by (simp add: bound_in_vars [OF vars_eval])
    then show "no_name_error (eval L obj \<sigma>1)" by (rule no_name_error_eval)
    fix ov \<sigma>2 assume 2: "eval L obj \<sigma>1 = (Inr ov, \<sigma>2)"
    with 1 i have "bound_in \<sigma>2 (names i)" by (simp add: bound_in_vars [OF vars_eval])
    then show "no_name_error (eval L i \<sigma>2)" by (rule no_name_error_eval)
  qed
qed (auto intro!: no_name_error_and_then no_name_error_perform no_name_error_pure
      no_name_error_eval no_name_error_from_names no_name_error_unpack_val
      simp: stmt_reads_def)

lemma binds_bind_stmt: "map fst (bind_stmt env s) = rev (stmt_binds s) @ map fst env"
  by (induction env s rule: bind_stmt.induct) (simp_all add: rev_map split_beta comp_def)

lemma names_bind_stmt:
  "set (map fst (bind_stmt env s)) = set (stmt_binds s) \<union> set (map fst env)"
  unfolding binds_bind_stmt by simp

lemma agrees_bound_in:
  assumes "agrees env \<sigma>" and "defined_before_use env s"
  shows "bound_in \<sigma> (stmt_reads s)"
proof -
  have "x \<in> set (map fst (vars \<sigma>))" if "x \<in> set (stmt_reads s)" for x
  proof -
    from that assms(2) have "bound_or_builtin env x"
      by (simp add: defined_before_use_def list_all_iff)
    with assms(1) show ?thesis
      unfolding agrees_def bound_or_builtin_def by blast
  qed
  then show ?thesis by (simp add: bound_in_def list_all_iff)
qed

lemma agrees_exec:
  "agrees env \<sigma> \<Longrightarrow> exec L s \<sigma> = (Inr u, \<sigma>') \<Longrightarrow> agrees (bind_stmt env s) \<sigma>'"
  unfolding agrees_def names_bind_stmt by (drule names_exec) auto

lemma no_name_error_run:
  "holds_throughout defined_before_use env prog \<Longrightarrow> agrees env \<sigma>
     \<Longrightarrow> no_name_error (run L prog \<sigma>)"
proof (induction prog arbitrary: env \<sigma>)
  case Nil
  then show ?case by (simp add: no_name_error_pure)
next
  case (Cons s ss)
  then have s: "defined_before_use env s"
    and ss: "holds_throughout defined_before_use (bind_stmt env s) ss" by simp_all
  show ?case unfolding run.simps
  proof (intro no_name_error_and_then)
    show "no_name_error (exec L s \<sigma>)"
      by (rule no_name_error_exec) (rule agrees_bound_in [OF Cons.prems(2) s])
  next
    fix u \<sigma>1 assume "exec L s \<sigma> = (Inr u, \<sigma>1)"
    then have "agrees (bind_stmt env s) \<sigma>1" by (rule agrees_exec [OF Cons.prems(2)])
    with ss show "no_name_error (run L ss \<sigma>1)" by (rule Cons.IH)
  qed
qed


subsection \<open>Evaluating a run step by step\<close>

lemma and_then_Inl: "and_then (Inl x, \<sigma>) f = (Inl x, \<sigma>)"
  by (simp add: and_then_def)

lemma and_then_Inr_eq: "and_then (Inr a, \<sigma>) f = f a \<sigma>"
  by (simp add: and_then_def)

lemma and_then_weak_cong: "r = r' \<Longrightarrow> and_then r f = and_then r' f"
  by simp

lemma holds_throughout_mono:
  assumes "\<And>env s. P env s \<Longrightarrow> Q env s"
  shows "holds_throughout P env prog \<Longrightarrow> holds_throughout Q env prog"
  by (induction prog arbitrary: env) (auto intro: assms)

subsection \<open>The checks on the script\<close>

lemma script_pipeline:
  "holds_throughout
     (\<lambda>env s. defined_before_use env s \<and> after_load env s \<and> renders_produced env s
        \<and> basemap_on_plot env s) [] script"
  by code_simp


lemma script_not_loaded_renders:
  "lines_where (\<lambda>env s. \<not> renders_loaded env s) [] script = [479]"
  by code_simp







lemma script_file_events:
  "file_events [] script =
     [FileEvent 58 Reads
        (Some ''philippines_flood_risk/phl_ica_floodrisk_geonode_mar2014.shp'') None,
      FileEvent 320 Reads (Some ''philippines_healthsites.geojson'') (Some ''GeoJSON''),
      FileEvent 407 Writes (Some ''output_data/data_selection.json'') (Some ''GeoJSON''),
      FileEvent 472 Writes (Some ''output_data/MIT_campus.shp'') None]"
  by code_simp

lemma script_file_calls:
  "map line_of (filter (invokes [''read_file'', ''to_file'']) script) = [58, 320, 407, 472]"
  by code_simp

lemma script_read_receivers:
  "map (\<lambda>s. map receiver_of (stmt_calls s)) (filter (invokes [''read_file'']) script) =
     [[Some (Name ''gpd'')], [Some (Name ''gpd'')]]"
  by code_simp

lemma run_missing_file:
  "run missing_file script start = (Inl (Raised ''FileNotFoundError''), stopped_at_load)"
  by (simp add: script_def missing_file_def demo_lib_def start_def stopped_at_load_def
      perform_def builtin_names_def and_then_Inl and_then_Inr_eq cong: and_then_weak_cong)

section \<open>The claims\<close>

subsection \<open>Pipeline order\<close>

text \<open>
  C3, as amended. The operations of the script occur in pipeline order. At every
  statement: each name it reads was bound by an earlier statement or is a builtin, so no
  stage consumes data that an earlier stage has not produced; when it inspects a frame,
  reprojects (\<open>to_crs\<close>), renders (\<open>plot\<close>, \<open>explore\<close>), overlays a basemap
  (\<open>add_basemap\<close>) or exports (\<open>to_file\<close>), a file has been loaded by
  \<open>gpd.read_file\<close> before; each rendering call is made on a frame produced earlier,
  loaded by \<open>gpd.read_file\<close> or built by \<open>gpd.GeoDataFrame()\<close>; and each
  \<open>add_basemap\<close> is applied to axes that a prior \<open>plot\<close> call returned. The one
  rendering call that is not made on loaded data is the plot at line 479. Whatever the
  libraries do, a run of the script in a kernel that binds the builtins never fails for
  reading a name that is not bound.
\<close>

theorem pipeline_order:
  fixes L :: "('o, 'x, 'w) lib"
  shows "(\<forall>i<length script.
            defined_before_use (env_before script i) (script ! i)
          \<and> after_load (env_before script i) (script ! i)
          \<and> renders_produced (env_before script i) (script ! i)
          \<and> basemap_on_plot (env_before script i) (script ! i))
       \<and> lines_where (\<lambda>env s. \<not> renders_loaded env s) [] script = [479]
       \<and> (\<forall>\<sigma>. set builtin_names \<subseteq> set (map fst (vars \<sigma>))
              \<longrightarrow> no_name_error (run L script \<sigma>))"
proof (intro conjI allI impI)
  fix i assume "i < length script"
  from holds_throughout_nth [OF script_pipeline this]
  have "defined_before_use (env_before script i) (script ! i)
      \<and> after_load (env_before script i) (script ! i)
      \<and> renders_produced (env_before script i) (script ! i)
      \<and> basemap_on_plot (env_before script i) (script ! i)"
    by (simp add: env_before_def)
  then show "defined_before_use (env_before script i) (script ! i)"
    and "after_load (env_before script i) (script ! i)"
    and "renders_produced (env_before script i) (script ! i)"
    and "basemap_on_plot (env_before script i) (script ! i)" by simp_all
next
  show "lines_where (\<lambda>env s. \<not> renders_loaded env s) [] script = [479]"
    by (rule script_not_loaded_renders)
next
  fix \<sigma> :: "('o, 'x, 'w) state"
  assume "set builtin_names \<subseteq> set (map fst (vars \<sigma>))"
  then have "agrees [] \<sigma>" by (simp add: agrees_def)
  moreover have "holds_throughout defined_before_use [] script"
    by (rule holds_throughout_mono [OF _ script_pipeline]) simp
  ultimately show "no_name_error (run L script \<sigma>)"
    by (rule no_name_error_run [rotated])
qed

text \<open>
  The theorem at the basemap overlay of line 221 (statement 29) and at the plot of line
  479 (statement 86), and for a run in which every library operation succeeds.
\<close>

theorem pipeline_order_witness:
  "29 < length script \<and> line_of (script ! 29) = 221
   \<and> invokes later_stages (script ! 29) \<and> loaded (env_before script 29)
   \<and> calls_to [''add_basemap''] (script ! 29) \<noteq> []
   \<and> basemap_on_plot (env_before script 29) (script ! 29)
   \<and> defined_before_use (env_before script 29) (script ! 29)
   \<and> 86 < length script \<and> line_of (script ! 86) = 479
   \<and> calls_to [''plot'', ''explore''] (script ! 86) \<noteq> []
   \<and> renders_produced (env_before script 86) (script ! 86)
   \<and> set builtin_names \<subseteq> set (map fst (vars start))
   \<and> no_name_error (run (demo_lib []) script start)"
proof -
  have a: "29 < length script" and b: "86 < length script" by code_simp+
  have c: "line_of (script ! 29) = 221" by code_simp
  have d: "invokes later_stages (script ! 29)" by code_simp
  have e: "loaded (env_before script 29)" by code_simp
  have f: "calls_to [''add_basemap''] (script ! 29) \<noteq> []" by code_simp
  have g: "line_of (script ! 86) = 479" by code_simp
  have h: "calls_to [''plot'', ''explore''] (script ! 86) \<noteq> []" by code_simp
  have k: "set builtin_names \<subseteq> set (map fst (vars start))"
    by (simp add: start_def comp_def)
  note p = pipeline_order [where L = "demo_lib []"]
  from p a have "basemap_on_plot (env_before script 29) (script ! 29)"
    and "defined_before_use (env_before script 29) (script ! 29)" by blast+
  moreover from p b have "renders_produced (env_before script 86) (script ! 86)" by blast
  moreover from p k have "no_name_error (run (demo_lib []) script start)" by blast
  ultimately show ?thesis using a b c d e f g h k by blast
qed

text \<open>
  The claim as first stated has every rendering call operate on loaded data. The plot at
  line 479 is made on \<open>newdata.to_crs(epsg=3857)\<close>, and \<open>newdata\<close> is built by
  \<open>gpd.GeoDataFrame()\<close> at line 417 and never read from a file.
\<close>

theorem pipeline_order_counterexample:
  "86 < length script \<and> line_of (script ! 86) = 479
   \<and> map (receiver_origin (env_before script 86))
        (calls_to [''plot'', ''explore''] (script ! 86)) = [built_frame]
   \<and> \<not> renders_loaded (env_before script 86) (script ! 86)"
  by code_simp

subsection \<open>File interfaces\<close>

text \<open>
  C4. The script reads vector data twice, each time through one \<open>gpd.read_file\<close> call:
  a \<open>.shp\<close> file at line 58 and a \<open>.geojson\<close> file at line 320. It writes vector data
  twice through \<open>to_file\<close>: at line 407 with \<open>driver='GeoJSON'\<close>, and at line 472 with
  no driver to a \<open>.shp\<close> path, which is a Shapefile. No other statement calls
  \<open>read_file\<close> or \<open>to_file\<close>, so the formats read are Shapefile and GeoJSON and the
  formats written are GeoJSON and Shapefile.
\<close>

theorem file_interfaces:
  "file_events [] script =
     [FileEvent 58 Reads
        (Some ''philippines_flood_risk/phl_ica_floodrisk_geonode_mar2014.shp'') None,
      FileEvent 320 Reads (Some ''philippines_healthsites.geojson'') (Some ''GeoJSON''),
      FileEvent 407 Writes (Some ''output_data/data_selection.json'') (Some ''GeoJSON''),
      FileEvent 472 Writes (Some ''output_data/MIT_campus.shp'') None]
   \<and> map event_format (file_events [] script) = [Shapefile, GeoJSON, GeoJSON, Shapefile]
   \<and> map event_extension (file_events [] script) =
       [Some ''shp'', Some ''geojson'', Some ''json'', Some ''shp'']
   \<and> map line_of (filter (invokes [''read_file'', ''to_file'']) script) = [58, 320, 407, 472]
   \<and> map (\<lambda>s. map receiver_of (stmt_calls s)) (filter (invokes [''read_file'']) script) =
       [[Some (Name ''gpd'')], [Some (Name ''gpd'')]]"
  using script_file_calls script_read_receivers
  by (simp add: script_file_events format_of_driver_def format_of_extension_def extension_def)

subsection \<open>No error handling\<close>

text \<open>
  C5. The script has no error handling: whatever the libraries do, an exception raised
  by any library operation of a run ends the run with that exception. When the run
  succeeds no library operation has raised; when it fails with \<open>e\<close>, the journal holds
  exactly the library exception \<open>e\<close> stands for, the statements before some statement
  \<open>k\<close> have completed, statement \<open>k\<close> has failed with \<open>e\<close>, and the final state is the
  one that this partial execution left behind.
\<close>

theorem exceptions_propagate:
  assumes "raised \<sigma> = []" and "run L script \<sigma> = (r, \<sigma>')"
  shows "(case r of
            Inr u \<Rightarrow> raised \<sigma>' = []
          | Inl e \<Rightarrow> raised \<sigma>' = raised_by e
              \<and> (\<exists>k<length script. \<exists>\<sigma>k. run L (take k script) \<sigma> = (Inr (), \<sigma>k)
                    \<and> exec L (script ! k) \<sigma>k = (Inl e, \<sigma>')))"
proof -
  have "journal \<sigma> (run L script \<sigma>)" by (rule journal_run)
  with assms have j: "raised \<sigma>' = library_exception r" by (simp add: journal_def)
  show ?thesis
  proof (cases r)
    case (Inl e)
    with assms(2) have "run L script \<sigma> = (Inl e, \<sigma>')" by simp
    from run_stops_at_failure [OF this] j Inl show ?thesis by simp
  next
    case (Inr u)
    with j show ?thesis by simp
  qed
qed

text \<open>
  The theorem for a missing input file: \<open>gpd.read_file\<close> raises at line 58, the run
  ends with that exception, and the state left behind binds the imports and
  \<open>filepath\<close> but not \<open>data\<close>, after the shell command of line 48 has run.
\<close>

theorem exceptions_propagate_witness:
  "raised start = []
   \<and> run missing_file script start = (Inl (Raised ''FileNotFoundError''), stopped_at_load)
   \<and> raised stopped_at_load = [''FileNotFoundError'']
   \<and> (\<exists>k<length script. \<exists>\<sigma>k. run missing_file (take k script) start = (Inr (), \<sigma>k)
         \<and> exec missing_file (script ! k) \<sigma>k
             = (Inl (Raised ''FileNotFoundError''), stopped_at_load))"
proof -
  have a: "raised start = []" by (simp add: start_def)
  from exceptions_propagate [OF a run_missing_file] a run_missing_file
  show ?thesis by simp
qed

subsection \<open>Calls into pre-built code\<close>




end
